theory Spec2Isabelle
  imports Main
begin

section \<open>Types as shapes\<close>

text \<open>
  The repository is one declaration file of type-level functions
  (\<^verbatim>\<open>src/types/collections.d.ts\<close>).  Its inputs and outputs are TypeScript types, so the
  embedding needs a model of the types the functions tell apart.  Every conditional in the
  source asks one of four questions about a type: whether it extends \<^verbatim>\<open>Function\<close>, whether it
  extends \<^verbatim>\<open>Array<infer U>\<close>, whether it extends \<^verbatim>\<open>ReadonlyArray<infer U>\<close>, and whether it
  extends \<^verbatim>\<open>object\<close>; every mapped type ranges over \<^verbatim>\<open>keyof T\<close> and reads \<^verbatim>\<open>T[P]\<close> together with
  the \<^verbatim>\<open>?\<close> and \<^verbatim>\<open>readonly\<close> modifiers of the property.  A shape records exactly that:

  \<^item> \<open>Leaf t False\<close> is a primitive such as \<^verbatim>\<open>number\<close> (it extends none of the four);
  \<^item> \<open>Leaf t True\<close> is a function type (it extends \<^verbatim>\<open>Function\<close> and \<^verbatim>\<open>object\<close>, and has no keys);
  \<^item> \<open>ArrayOf False U\<close> is \<^verbatim>\<open>Array<U>\<close> and \<open>ArrayOf True U\<close> is \<^verbatim>\<open>ReadonlyArray<U>\<close>;
  \<^item> \<open>RecordOf fs\<close> is an object type with the properties \<open>fs\<close>, in declaration order.

  Type aliases and interfaces may refer to themselves (\<^verbatim>\<open>type S = { self: S }\<close>), and the
  compiler expands a type function applied to such a type only as far as it is looked at.
  Shapes are therefore a codatatype: finitely branching trees of any depth, and the type
  functions without a recursion budget are corecursive.

  Two simplifications are made throughout.  Unions, tuples, index signatures and symbol keys
  are left out.  The property type \<^verbatim>\<open>T[P]\<close> of an optional property is its declared type,
  without the \<^verbatim>\<open>undefined\<close> that \<^verbatim>\<open>strictNullChecks\<close> adds; this is the reading under which the
  examples in the source's own comments hold.
\<close>

datatype 's field = Field (name: string) (shape: 's) (optional: bool) (readonly: bool)

codatatype shape =
    Leaf (typeId: string) (opaque: bool)
  | ArrayOf (readonlyArray: bool) (element: shape)
  | RecordOf (fields: "shape field list")

definition extends_object :: "shape \<Rightarrow> bool" where
  "extends_object T = (case T of Leaf t op \<Rightarrow> op | ArrayOf r U \<Rightarrow> True | RecordOf fs \<Rightarrow> True)"

text \<open>\<^verbatim>\<open>T[K]\<close> for a property name \<open>K\<close>: the first property of that name.\<close>

fun lookup :: "'s field list \<Rightarrow> string \<Rightarrow> 's field option" where
  "lookup [] K = None"
| "lookup (f # fs) K = (if name f = K then Some f else lookup fs K)"


section \<open>The deep transforms\<close>

subsection \<open>DeepReadonly and DeepMutable\<close>

text \<open>
  \<^verbatim>\<open>DeepReadonly<T> = T extends Function ? T
     : T extends Array<infer U> ? ReadonlyArray<DeepReadonly<U>>
     : T extends object ? { readonly [K in keyof T]: DeepReadonly<T[K]> }
     : T\<close>

  A function leaf leaves by the first branch and a primitive by the last.  \<^verbatim>\<open>Array<U>\<close> takes
  the second branch.  \<^verbatim>\<open>ReadonlyArray<U>\<close> is not an \<^verbatim>\<open>Array\<close>, so it reaches the mapped type,
  which is homomorphic in \<open>T\<close>: applied to an array type it maps the element type and, with the
  \<^verbatim>\<open>readonly\<close> modifier, yields a read-only array again.  On an object type the mapped type keeps
  every property and its \<^verbatim>\<open>?\<close> modifier.
\<close>

primcorec DeepReadonly :: "shape \<Rightarrow> shape" where
  "DeepReadonly T = (case T of
      Leaf t op \<Rightarrow> Leaf t op
    | ArrayOf r U \<Rightarrow> ArrayOf True (DeepReadonly U)
    | RecordOf fs \<Rightarrow>
        RecordOf (map (\<lambda>f. Field (name f) (DeepReadonly (shape f)) (optional f) True) fs))"

text \<open>
  \<^verbatim>\<open>DeepMutable<T> = T extends Function ? T
     : T extends Array<infer U> ? Array<DeepMutable<U>>
     : T extends object ? { -readonly [K in keyof T]-?: DeepMutable<T[K]> }
     : T\<close>

  The same dispatch; \<^verbatim>\<open>-readonly\<close> on the mapped type turns a read-only array into a mutable
  one, and \<^verbatim>\<open>-?\<close> clears the optional modifier.
\<close>

primcorec DeepMutable :: "shape \<Rightarrow> shape" where
  "DeepMutable T = (case T of
      Leaf t op \<Rightarrow> Leaf t op
    | ArrayOf r U \<Rightarrow> ArrayOf False (DeepMutable U)
    | RecordOf fs \<Rightarrow>
        RecordOf (map (\<lambda>f. Field (name f) (DeepMutable (shape f)) False False) fs))"

subsection \<open>DeepPartial and DeepRequired\<close>

text \<open>
  \<^verbatim>\<open>DeepPartial<T> = {
     [P in keyof T]?: T[P] extends Array<infer U> ? DeepPartial<U>[]
        : T[P] extends ReadonlyArray<infer U> ? ReadonlyArray<DeepPartial<U>>
        : T[P] extends object ? DeepPartial<T[P]>
        : T[P] }\<close>

  Here the mapped type comes first and the conditional is its template.  There is no
  \<^verbatim>\<open>T extends Function\<close> branch.  The mapped type is homomorphic in \<open>T\<close>, hence

  \<^item> on a primitive it is the primitive itself;
  \<^item> on a function type, which has no keys and whose call signature a mapped type does not
    copy, it is the empty object type \<^verbatim>\<open>{}\<close>;
  \<^item> on an array type it is the array of the template applied to the element type;
  \<^item> on an object type it applies the template to every property and sets \<^verbatim>\<open>?\<close>.

  The template sends an array property to the array of \<^verbatim>\<open>DeepPartial<U>\<close>, any other
  object (a function included) to \<^verbatim>\<open>DeepPartial<T[P]>\<close>, and a primitive to itself.

  A type is thus met in one of two positions: as the subject \<open>T\<close> of the mapped type, or as a
  property type \<open>T[P]\<close> handed to the template.  The two positions call each other, and one
  corecursive function over both defines them; \<open>DeepPartial_template\<close> and \<open>DeepPartial\<close>
  are its two instances, and the lemmas \<open>DeepPartial_simps\<close> and
  \<open>DeepPartial_template_simps\<close> below give each in the form of the source.
\<close>

datatype position = Subject | Property

primcorec DeepPartial_at :: "position \<Rightarrow> shape \<Rightarrow> shape" where
  "DeepPartial_at p T = (case T of
      Leaf t op \<Rightarrow> (if op then RecordOf [] else Leaf t op)
    | ArrayOf r U \<Rightarrow> ArrayOf r (DeepPartial_at (if p = Subject then Property else Subject) U)
    | RecordOf fs \<Rightarrow>
        RecordOf (map (\<lambda>f. Field (name f) (DeepPartial_at Property (shape f)) True (readonly f)) fs))"

definition DeepPartial :: "shape \<Rightarrow> shape" where
  "DeepPartial T = DeepPartial_at Subject T"

definition DeepPartial_template :: "shape \<Rightarrow> shape" where
  "DeepPartial_template X = DeepPartial_at Property X"

text \<open>
  \<^verbatim>\<open>DeepRequired<T>\<close> is the same declaration with \<^verbatim>\<open>-?\<close> in place of \<^verbatim>\<open>?\<close>.
\<close>

primcorec DeepRequired_at :: "position \<Rightarrow> shape \<Rightarrow> shape" where
  "DeepRequired_at p T = (case T of
      Leaf t op \<Rightarrow> (if op then RecordOf [] else Leaf t op)
    | ArrayOf r U \<Rightarrow> ArrayOf r (DeepRequired_at (if p = Subject then Property else Subject) U)
    | RecordOf fs \<Rightarrow>
        RecordOf (map (\<lambda>f. Field (name f) (DeepRequired_at Property (shape f)) False (readonly f)) fs))"

definition DeepRequired :: "shape \<Rightarrow> shape" where
  "DeepRequired T = DeepRequired_at Subject T"

definition DeepRequired_template :: "shape \<Rightarrow> shape" where
  "DeepRequired_template X = DeepRequired_at Property X"


section \<open>The path algebra\<close>

subsection \<open>Path types\<close>

text \<open>
  \<^verbatim>\<open>Join<K, P> = K extends string | number ? P extends string | number
       ? `${K & (string | number)}.${P & (string | number)}` : never : never\<close>

  \<^verbatim>\<open>Paths\<close> builds a union of string types with \<^verbatim>\<open>Join\<close>.  A key is a property name or, for
  an array, the type \<^verbatim>\<open>number\<close>; interpolated into a template literal the latter becomes the
  pattern \<^verbatim>\<open>${number}\<close>, which stands for every numeric string.  A member of the union is
  therefore a string with holes: a list whose items are characters or \<open>NumHole\<close>.  A member
  without a hole is a string literal type, \<open>map Ch s\<close>; the one-item list \<open>[NumHole]\<close> is the
  key \<^verbatim>\<open>number\<close> itself.  The union is a set of such members.  Only the members that are
  strings or numbers are kept: they are the ones \<^verbatim>\<open>Join\<close> lets through.
\<close>

datatype tchar = Ch char | NumHole

type_synonym tstring = "tchar list"

definition Join :: "tstring \<Rightarrow> tstring \<Rightarrow> tstring" where
  "Join K P = K @ [Ch CHR ''.''] @ P"

subsection \<open>The recursion budget\<close>

text \<open>
  \<^verbatim>\<open>type Prev = [never, 0, 1, 2, 3, 4, 5, 6, 7, 8, 9, 10]\<close>

  The budget \<open>D\<close> of \<^verbatim>\<open>Paths\<close> is a number type or \<^verbatim>\<open>never\<close>, and \<^verbatim>\<open>Prev[D]\<close> is the next budget.
  The tuple has twelve entries.  Indexing it at 12 or beyond is not a budget any more (the
  compiler gives \<^verbatim>\<open>undefined\<close>); the model marks it \<open>DUndefined\<close> and \<open>Paths\<close> stops there
  with \<open>None\<close>, so that no behaviour is made up for it.
\<close>

datatype depth = DNever | DNum nat | DUndefined

definition Prev :: "depth list" where
  "Prev = [DNever, DNum 0, DNum 1, DNum 2, DNum 3, DNum 4, DNum 5,
           DNum 6, DNum 7, DNum 8, DNum 9, DNum 10]"

fun Prev_at :: "depth \<Rightarrow> depth" where
  "Prev_at (DNum n) = (if n < length Prev then Prev ! n else DUndefined)"
| "Prev_at DNever = DNever"
| "Prev_at DUndefined = DUndefined"

text \<open>The number of levels a budget still allows; it decreases along \<open>Prev_at\<close>.\<close>

fun levels :: "depth \<Rightarrow> nat" where
  "levels DNever = 0"
| "levels (DNum n) = Suc n"
| "levels DUndefined = 0"

subsection \<open>Paths\<close>

text \<open>
  \<^verbatim>\<open>Paths<T, D extends number = 5> = [D] extends [never] ? never : T extends object ? {
       [K in keyof T]-?: K extends string | number
           ? T[K] extends object ? K | Join<K, Paths<T[K], Prev[D]>> : K
           : never
     }[keyof T] : ''\<close>

  \<^item> With budget \<^verbatim>\<open>never\<close> the result is \<^verbatim>\<open>never\<close>, the empty union.
  \<^item> A primitive does not extend \<^verbatim>\<open>object\<close>: the result is the empty string \<^verbatim>\<open>''\<close>.
  \<^item> A function type extends \<^verbatim>\<open>object\<close> and has no keys: the mapped type is \<^verbatim>\<open>{}\<close> and indexing
    it with \<^verbatim>\<open>keyof T = never\<close> gives \<^verbatim>\<open>never\<close>.  The same holds for an object type without
    properties.
  \<^item> An object type contributes, for each key \<open>K\<close>, the key itself and, when \<open>T[K]\<close> extends
    \<^verbatim>\<open>object\<close>, the paths of \<open>T[K]\<close> at budget \<^verbatim>\<open>Prev[D]\<close> joined under \<open>K\<close>.
  \<^item> An array type extends \<^verbatim>\<open>object\<close> too.  The mapped type is homomorphic in \<open>T\<close>, so on an
    array it is the array of the template at the key \<^verbatim>\<open>number\<close>, and indexing that array with
    \<^verbatim>\<open>keyof T\<close> gives its element type (besides \<^verbatim>\<open>number\<close> again, from \<^verbatim>\<open>length\<close>, and method
    types, which are no strings).  An array so behaves like an object whose one key is
    \<^verbatim>\<open>number\<close>.
\<close>

fun unions :: "'a set option list \<Rightarrow> 'a set option" where
  "unions [] = Some {}"
| "unions (None # xs) = None"
| "unions (Some A # xs) = (case unions xs of None \<Rightarrow> None | Some B \<Rightarrow> Some (A \<union> B))"

function Paths :: "shape \<Rightarrow> depth \<Rightarrow> tstring set option" where
  "Paths T D = (case D of
      DNever \<Rightarrow> Some {}
    | DUndefined \<Rightarrow> None
    | DNum n \<Rightarrow> (case T of
          Leaf t op \<Rightarrow> (if op then Some {} else Some {[]})
        | ArrayOf r U \<Rightarrow>
            (if extends_object U
             then map_option (\<lambda>P. {[NumHole]} \<union> Join [NumHole] ` P) (Paths U (Prev_at D))
             else Some {[NumHole]})
        | RecordOf fs \<Rightarrow> unions (map (\<lambda>K.
            (case lookup fs K of
               None \<Rightarrow> Some {}
             | Some f \<Rightarrow>
                 (if extends_object (shape f)
                  then map_option (\<lambda>P. {map Ch K} \<union> Join (map Ch K) ` P)
                         (Paths (shape f) (Prev_at D))
                  else Some {map Ch K}))) (map name fs))))"
  by pat_completeness auto
termination
  by (relation "measure (\<lambda>(T, D). levels D)")
     (auto simp: Prev_def nth_Cons split: nat.splits)

subsection \<open>PathValue\<close>

text \<open>
  \<^verbatim>\<open>PathValue<T, P extends string> = P extends `${infer K}.${infer Rest}`
       ? K extends keyof T ? PathValue<T[K], Rest> : never
       : P extends keyof T ? T[P] : never\<close>

  \<open>P\<close> is a string literal.  It matches the pattern when it contains a dot; \<open>K\<close> is then the
  text before the first dot and \<open>Rest\<close> the text after it.  The result \<^verbatim>\<open>never\<close> is \<open>None\<close>.

  \<^verbatim>\<open>keyof T\<close> and \<^verbatim>\<open>T[K]\<close> are those of the object type when \<open>T\<close> is one.  An array or a
  primitive has the members its library interface declares (\<^verbatim>\<open>length\<close>, \<^verbatim>\<open>toFixed\<close>, ...);
  that interface is no part of the repository and is a parameter \<open>L\<close> here.  A function type
  has no keys.  A numeric string such as \<^verbatim>\<open>"0"\<close> is not assignable to the key \<^verbatim>\<open>number\<close> of an
  array, so no array element is reached through \<open>L\<close>.
\<close>

record lib =
  members :: "shape \<Rightarrow> shape field list"
  numeric :: "shape \<Rightarrow> bool"

definition props :: "lib \<Rightarrow> shape \<Rightarrow> shape field list" where
  "props L T = (case T of
      Leaf t op \<Rightarrow> (if op then [] else members L T)
    | ArrayOf r U \<Rightarrow> members L T
    | RecordOf fs \<Rightarrow> fs)"

definition keyof :: "lib \<Rightarrow> shape \<Rightarrow> string list" where
  "keyof L T = map name (props L T)"

definition before_dot :: "string \<Rightarrow> string" where
  "before_dot P = takeWhile (\<lambda>c. c \<noteq> CHR ''.'') P"

definition after_dot :: "string \<Rightarrow> string" where
  "after_dot P = tl (dropWhile (\<lambda>c. c \<noteq> CHR ''.'') P)"

function PathValue :: "lib \<Rightarrow> shape \<Rightarrow> string \<Rightarrow> shape option" where
  "PathValue L T P =
     (if CHR ''.'' \<in> set P
      then (case lookup (props L T) (before_dot P) of
              None \<Rightarrow> None
            | Some f \<Rightarrow> PathValue L (shape f) (after_dot P))
      else (case lookup (props L T) P of
              None \<Rightarrow> None
            | Some f \<Rightarrow> Some (shape f)))"
  by pat_completeness auto
termination
proof (relation "measure (\<lambda>(L, T, P). length P)")
  show "wf (measure (\<lambda>(L, T, P). length P))"
    by simp
next
  fix L :: lib and T :: shape and P :: string and f :: "shape field"
  assume dot: "CHR ''.'' \<in> set P"
  have "length (dropWhile (\<lambda>c. c \<noteq> CHR ''.'') P) \<le> length P"
    by (rule length_dropWhile_le)
  moreover have "dropWhile (\<lambda>c. c \<noteq> CHR ''.'') P \<noteq> []"
    using dot by (auto simp: dropWhile_eq_Nil_conv)
  ultimately have "length (after_dot P) < length P"
    by (cases "dropWhile (\<lambda>c. c \<noteq> CHR ''.'') P") (auto simp: after_dot_def)
  then show "((L, shape f, after_dot P), (L, T, P)) \<in> measure (\<lambda>(L, T, P). length P)"
    by simp
qed


section \<open>DeepIntersection\<close>

text \<open>
  \<^verbatim>\<open>DeepIntersection<T, D> = {
       [P in keyof T]: T[P] extends Array<infer U> ? DeepIntersection<U, D>[]
          : T[P] extends ReadonlyArray<infer U> ? ReadonlyArray<DeepIntersection<U, D>>
          : T[P] extends object ? DeepIntersection<T[P], D>
          : T[P]
     } & {
       [P in keyof D]: P extends keyof T ? never : D[P]
     }\<close>

  The result is an intersection of two mapped types, and its second operand gives the type
  \<^verbatim>\<open>never\<close> to some properties.  Neither is a shape, so results live in a larger type with
  \<open>INever\<close> and \<open>IInter\<close>; \<open>plain\<close> embeds the shapes.
\<close>

codatatype ishape =
    INever
  | ILeaf string bool
  | IArrayOf bool ishape
  | IRecordOf "ishape field list"
  | IInter ishape ishape

primcorec plain :: "shape \<Rightarrow> ishape" where
  "plain T = (case T of
      Leaf t op \<Rightarrow> ILeaf t op
    | ArrayOf r U \<Rightarrow> IArrayOf r (plain U)
    | RecordOf fs \<Rightarrow>
        IRecordOf (map (\<lambda>f. Field (name f) (plain (shape f)) (optional f) (readonly f)) fs))"

text \<open>
  The second operand, \<^verbatim>\<open>{ [P in keyof D]: P extends keyof T ? never : D[P] }\<close>, is homomorphic
  in \<open>D\<close>: on an object type it keeps every property of \<open>D\<close> with its modifiers and replaces
  the type of a property whose name is a key of \<open>T\<close> by \<^verbatim>\<open>never\<close>; the property itself stays.
  On an array \<open>D\<close> the key is \<^verbatim>\<open>number\<close>, which is a key of \<open>T\<close> when \<open>T\<close> is an array or a
  primitive that the library indexes by number (\<open>numeric L\<close>).
\<close>

definition number_key :: "lib \<Rightarrow> shape \<Rightarrow> bool" where
  "number_key L T = (case T of
      Leaf t op \<Rightarrow> \<not> op \<and> numeric L T
    | ArrayOf r U \<Rightarrow> True
    | RecordOf fs \<Rightarrow> False)"

definition DeepIntersection_added :: "lib \<Rightarrow> shape \<Rightarrow> shape \<Rightarrow> ishape" where
  "DeepIntersection_added L T D = (case D of
      Leaf t op \<Rightarrow> (if op then IRecordOf [] else ILeaf t op)
    | ArrayOf r E \<Rightarrow> IArrayOf r (if number_key L T then INever else plain E)
    | RecordOf gs \<Rightarrow>
        IRecordOf (map (\<lambda>g. Field (name g)
                      (if name g \<in> set (keyof L T) then INever else plain (shape g))
                      (optional g) (readonly g)) gs))"

text \<open>
  The first operand is the mapped type of \<^verbatim>\<open>DeepPartial\<close> without the \<^verbatim>\<open>?\<close>, with \<open>D\<close> handed
  down.  A type is met as the whole \<^verbatim>\<open>DeepIntersection<T, D>\<close>, as the subject of the first
  mapped type, or as a property type in its template; one corecursive function covers the
  three, one constructor of the result at a time:

  \<^item> a primitive stays as it is, as subject of the mapped type and in the template;
  \<^item> an array becomes an array: of the template of its element when it is the subject, of
    \<^verbatim>\<open>DeepIntersection<U, D>\<close> when it is a property type;
  \<^item> the mapped type of an object type is the record of the templates of its properties, and
    the mapped type of a function type is \<^verbatim>\<open>{}\<close>;
  \<^item> everything else is the intersection of the mapped type with the second operand: the
    whole \<^verbatim>\<open>DeepIntersection<T, D>\<close>, and the template of a property type that is an object
    or a function.

  The lemmas \<open>DeepIntersection_unfold\<close>, \<open>DeepIntersection_mapped_simps\<close> and
  \<open>DeepIntersection_template_simps\<close> below give the three in the form of the source.
\<close>

datatype part = Whole | Mapped | Template

primcorec (sequential) DeepIntersection_at :: "lib \<Rightarrow> part \<Rightarrow> shape \<Rightarrow> shape \<Rightarrow> ishape" where
  "p \<noteq> Whole \<and> is_Leaf T \<and> \<not> opaque T \<Longrightarrow>
     DeepIntersection_at L p T D = ILeaf (typeId T) False"
| "p \<noteq> Whole \<and> is_ArrayOf T \<Longrightarrow>
     DeepIntersection_at L p T D =
       IArrayOf (readonlyArray T)
         (DeepIntersection_at L (if p = Mapped then Template else Whole) (element T) D)"
| "p = Mapped \<Longrightarrow>
     DeepIntersection_at L p T D =
       IRecordOf (map (\<lambda>f. Field (name f) (DeepIntersection_at L Template (shape f) D)
                              (optional f) (readonly f))
                    (case T of RecordOf fs \<Rightarrow> fs | _ \<Rightarrow> []))"
| "_ \<Longrightarrow>
     DeepIntersection_at L p T D =
       IInter (DeepIntersection_at L Mapped T D) (DeepIntersection_added L T D)"

definition DeepIntersection :: "lib \<Rightarrow> shape \<Rightarrow> shape \<Rightarrow> ishape" where
  "DeepIntersection L T D = DeepIntersection_at L Whole T D"

definition DeepIntersection_mapped :: "lib \<Rightarrow> shape \<Rightarrow> shape \<Rightarrow> ishape" where
  "DeepIntersection_mapped L T D = DeepIntersection_at L Mapped T D"

definition DeepIntersection_template :: "lib \<Rightarrow> shape \<Rightarrow> shape \<Rightarrow> ishape" where
  "DeepIntersection_template L X D = DeepIntersection_at L Template X D"

subsection \<open>The properties of an intersection\<close>

text \<open>
  An intersection of two object types has the properties of both.  A property they share
  has the intersection of the two property types, and \<^verbatim>\<open>X & never\<close> is \<^verbatim>\<open>never\<close>; it is optional
  or read-only only if it is so in both.
\<close>

definition meet :: "ishape field \<Rightarrow> ishape field \<Rightarrow> ishape field" where
  "meet f g = Field (name f)
     (if shape f = INever \<or> shape g = INever then INever else IInter (shape f) (shape g))
     (optional f \<and> optional g) (readonly f \<and> readonly g)"

definition merge :: "ishape field list \<Rightarrow> ishape field list \<Rightarrow> ishape field list" where
  "merge fs gs =
     map (\<lambda>f. case lookup gs (name f) of None \<Rightarrow> f | Some g \<Rightarrow> meet f g) fs
     @ filter (\<lambda>g. lookup fs (name g) = None) gs"

definition properties :: "ishape \<Rightarrow> ishape field list option" where
  "properties X = (case X of
      INever \<Rightarrow> None
    | ILeaf t op \<Rightarrow> None
    | IArrayOf r U \<Rightarrow> None
    | IRecordOf fs \<Rightarrow> Some fs
    | IInter A B \<Rightarrow> (case A of
          IRecordOf fs \<Rightarrow> (case B of IRecordOf gs \<Rightarrow> Some (merge fs gs) | _ \<Rightarrow> None)
        | _ \<Rightarrow> None))"

subsection \<open>Walking into a type\<close>

text \<open>
  A position inside a type is reached by a list of steps, each into a named property or
  into the element of an array.
\<close>

datatype step = Member string | Element

fun walk :: "step list \<Rightarrow> shape \<Rightarrow> shape option" where
  "walk [] T = Some T"
| "walk (Member K # ks) T = (case T of
      RecordOf fs \<Rightarrow> (case lookup fs K of None \<Rightarrow> None | Some f \<Rightarrow> walk ks (shape f))
    | _ \<Rightarrow> None)"
| "walk (Element # ks) T = (case T of ArrayOf r U \<Rightarrow> walk ks U | _ \<Rightarrow> None)"

text \<open>
  In a result of \<^verbatim>\<open>DeepIntersection\<close> the walk goes through the first operand of every
  intersection it meets, which is where the recursion of the source is.
\<close>

definition first_operand :: "ishape \<Rightarrow> ishape" where
  "first_operand X = (case X of IInter A B \<Rightarrow> A | _ \<Rightarrow> X)"



section \<open>Named shapes and measures used in the statements\<close>


text \<open>How many dot-separated segments a path has, and whether names are free of dots.\<close>

definition nsegments :: "tstring \<Rightarrow> nat" where
  "nsegments p = Suc (length (filter (\<lambda>c. c = Ch CHR ''.'') p))"


text \<open>The \<^verbatim>\<open>User\<close> type of the examples in the source's comments.\<close>

definition User :: shape where
  "User = RecordOf
     [Field ''id'' (Leaf ''number'' False) False False,
      Field ''profile'' (RecordOf
         [Field ''name'' (Leaf ''string'' False) False False,
          Field ''address'' (RecordOf
             [Field ''city'' (Leaf ''string'' False) False False,
              Field ''zip'' (Leaf ''number'' False) False False]) False False]) False False]"

text \<open>\<^verbatim>\<open>{ items: { x: number }[] }\<close>, \<^verbatim>\<open>{ run: () => void }\<close> and \<^verbatim>\<open>{ "a.b": number }\<close>.\<close>

definition Items :: shape where
  "Items = RecordOf
     [Field ''items'' (ArrayOf False (RecordOf [Field ''x'' (Leaf ''number'' False) False False]))
        False False]"

definition Runner :: shape where
  "Runner = RecordOf [Field ''run'' (Leaf ''() => void'' True) False False]"

definition Dotted :: shape where
  "Dotted = RecordOf [Field ''a.b'' (Leaf ''number'' False) False False]"

text \<open>A library interface that declares no members at all.\<close>

definition no_members :: lib where
  "no_members = \<lparr>members = (\<lambda>T. []), numeric = (\<lambda>T. False)\<rparr>"

text \<open>
  The operands of the intersection example: \<^verbatim>\<open>{ a: int }\<close> and \<^verbatim>\<open>{ a: string; b: bool }\<close>; and
  an array property whose name the second operand has too: \<^verbatim>\<open>{ xs: int[] }\<close> and
  \<^verbatim>\<open>{ xs: string }\<close>.
\<close>

definition Primary :: shape where
  "Primary = RecordOf [Field ''a'' (Leaf ''int'' False) False False]"

definition Secondary :: shape where
  "Secondary = RecordOf [Field ''a'' (Leaf ''string'' False) False False,
                         Field ''b'' (Leaf ''bool'' False) False False]"




section \<open>Properties of the deep transforms\<close>

subsection \<open>Unfolding equations\<close>

lemma DeepReadonly_simps:
  "DeepReadonly (Leaf t op) = Leaf t op"
  "DeepReadonly (ArrayOf r U) = ArrayOf True (DeepReadonly U)"
  "DeepReadonly (RecordOf fs) =
     RecordOf (map (\<lambda>f. Field (name f) (DeepReadonly (shape f)) (optional f) True) fs)"
  by (simp_all add: DeepReadonly.code)

lemma DeepMutable_simps:
  "DeepMutable (Leaf t op) = Leaf t op"
  "DeepMutable (ArrayOf r U) = ArrayOf False (DeepMutable U)"
  "DeepMutable (RecordOf fs) =
     RecordOf (map (\<lambda>f. Field (name f) (DeepMutable (shape f)) False False) fs)"
  by (simp_all add: DeepMutable.code)

lemma DeepPartial_at_simps:
  "DeepPartial_at p (Leaf t op) = (if op then RecordOf [] else Leaf t op)"
  "DeepPartial_at p (ArrayOf r U) =
     ArrayOf r (DeepPartial_at (if p = Subject then Property else Subject) U)"
  "DeepPartial_at p (RecordOf fs) =
     RecordOf (map (\<lambda>f. Field (name f) (DeepPartial_at Property (shape f)) True (readonly f)) fs)"
  by (simp_all add: DeepPartial_at.code)

lemma DeepRequired_at_simps:
  "DeepRequired_at p (Leaf t op) = (if op then RecordOf [] else Leaf t op)"
  "DeepRequired_at p (ArrayOf r U) =
     ArrayOf r (DeepRequired_at (if p = Subject then Property else Subject) U)"
  "DeepRequired_at p (RecordOf fs) =
     RecordOf (map (\<lambda>f. Field (name f) (DeepRequired_at Property (shape f)) False (readonly f)) fs)"
  by (simp_all add: DeepRequired_at.code)

text \<open>\<^verbatim>\<open>DeepPartial\<close> and its template, in the form of the source.\<close>

lemma DeepPartial_simps:
  "DeepPartial (Leaf t False) = Leaf t False"
  "DeepPartial (Leaf t True) = RecordOf []"
  "DeepPartial (ArrayOf r U) = ArrayOf r (DeepPartial_template U)"
  "DeepPartial (RecordOf fs) =
     RecordOf (map (\<lambda>f. Field (name f) (DeepPartial_template (shape f)) True (readonly f)) fs)"
  by (simp_all add: DeepPartial_def DeepPartial_template_def DeepPartial_at_simps)

lemma DeepPartial_template_simps:
  "DeepPartial_template (ArrayOf False U) = ArrayOf False (DeepPartial U)"
  "DeepPartial_template (ArrayOf True U) = ArrayOf True (DeepPartial U)"
  "DeepPartial_template (RecordOf fs) = DeepPartial (RecordOf fs)"
  "DeepPartial_template (Leaf t True) = DeepPartial (Leaf t True)"
  "DeepPartial_template (Leaf t False) = Leaf t False"
  by (simp_all add: DeepPartial_def DeepPartial_template_def DeepPartial_at_simps)

subsection \<open>The examples in the comments of the source\<close>

text \<open>
  The comments give \<^verbatim>\<open>DeepPartial<User>\<close> as \<^verbatim>\<open>User\<close> with \<^verbatim>\<open>?\<close> on every property at every
  level, \<^verbatim>\<open>DeepReadonly<User>\<close> as \<^verbatim>\<open>User\<close> with \<^verbatim>\<open>readonly\<close> on every property, and
  \<^verbatim>\<open>DeepRequired\<close> and \<^verbatim>\<open>DeepMutable\<close> as taking such types back to \<^verbatim>\<open>User\<close>.
\<close>

lemma DeepPartial_User:
  "DeepPartial User = RecordOf
     [Field ''id'' (Leaf ''number'' False) True False,
      Field ''profile'' (RecordOf
         [Field ''name'' (Leaf ''string'' False) True False,
          Field ''address'' (RecordOf
             [Field ''city'' (Leaf ''string'' False) True False,
              Field ''zip'' (Leaf ''number'' False) True False]) True False]) True False]"
  by (simp add: User_def DeepPartial_simps DeepPartial_template_simps)

lemma DeepReadonly_User:
  "DeepReadonly User = RecordOf
     [Field ''id'' (Leaf ''number'' False) False True,
      Field ''profile'' (RecordOf
         [Field ''name'' (Leaf ''string'' False) False True,
          Field ''address'' (RecordOf
             [Field ''city'' (Leaf ''string'' False) False True,
              Field ''zip'' (Leaf ''number'' False) False True]) False True]) False True]"
  by (simp add: User_def DeepReadonly_simps)

lemma DeepRequired_DeepPartial_User: "DeepRequired (DeepPartial User) = User"
  by (simp add: User_def DeepPartial_def DeepRequired_def DeepPartial_at_simps
        DeepRequired_at_simps)

lemma DeepMutable_DeepReadonly_DeepPartial_User:
  "DeepMutable (DeepReadonly (DeepPartial User)) = User"
  by (simp add: User_def DeepPartial_def DeepPartial_at_simps DeepReadonly_simps
        DeepMutable_simps)

subsection \<open>Idempotence\<close>



lemma DeepPartial_at_position: "DeepPartial_at p s = DeepPartial_at q s"
proof (coinduction arbitrary: p q s)
  case (Eq_shape p q s)
  show ?case
    by (cases s)
       (auto simp: DeepPartial_at_simps list_all2_map1 list_all2_map2 field.rel_sel
             intro!: list.rel_refl_strong)
qed


lemma DeepRequired_at_idem: "DeepRequired_at p (DeepRequired_at q s) = DeepRequired_at r s"
proof (coinduction arbitrary: p q r s)
  case (Eq_shape p q r s)
  show ?case
    by (cases s)
       (auto simp: DeepRequired_at_simps list_all2_map1 list_all2_map2 field.rel_sel
             intro!: list.rel_refl_strong)
qed



subsection \<open>Reset law\<close>



section \<open>Properties of the path algebra\<close>

subsection \<open>The budget table\<close>

lemma Prev_at_0 [simp]: "Prev_at (DNum 0) = DNever"
  by (simp add: Prev_def)

lemma Prev_at_Suc: "Prev_at (DNum (Suc n)) = (if n < 11 then DNum n else DUndefined)"
  by (auto simp: Prev_def nth_Cons less_Suc_eq numeral_eq_Suc split: nat.splits)

lemmas [simp del] = Prev_at.simps(1)

lemma Prev_at_1 [simp]: "Prev_at (DNum (Suc 0)) = DNum 0"
  by (simp add: Prev_at_Suc)

lemma Prev_at_numeral [simp]:
  "Prev_at (DNum (numeral k)) =
     (if pred_numeral k < 11 then DNum (pred_numeral k) else DUndefined)"
  by (simp only: numeral_eq_Suc Prev_at_Suc)

subsection \<open>Unions of optional sets\<close>

lemma unions_single [simp]: "unions [x] = x"
  by (cases x) simp_all




subsection \<open>Looking properties up\<close>

lemma lookup_Some: "lookup fs K = Some f \<Longrightarrow> f \<in> set fs \<and> name f = K"
  by (induction fs) (auto split: if_splits)


lemma lookup_map:
  "(\<And>f. name (h f) = name f) \<Longrightarrow> lookup (map h fs) K = map_option h (lookup fs K)"
  by (induction fs) auto

subsection \<open>Unfolding equations\<close>

lemmas [simp del] = Paths.simps PathValue.simps

lemma Paths_simps:
  "Paths T DNever = Some {}"
  "Paths T DUndefined = None"
  "Paths (Leaf t op) (DNum n) = (if op then Some {} else Some {[]})"
  "Paths (ArrayOf r U) (DNum n) =
     (if extends_object U
      then map_option (\<lambda>P. {[NumHole]} \<union> Join [NumHole] ` P) (Paths U (Prev_at (DNum n)))
      else Some {[NumHole]})"
  "Paths (RecordOf fs) (DNum n) = unions (map (\<lambda>K.
      (case lookup fs K of
         None \<Rightarrow> Some {}
       | Some f \<Rightarrow>
           (if extends_object (shape f)
            then map_option (\<lambda>P. {map Ch K} \<union> Join (map Ch K) ` P)
                   (Paths (shape f) (Prev_at (DNum n)))
            else Some {map Ch K}))) (map name fs))"
  by (simp_all add: Paths.simps)

lemma extends_object_simps [simp]:
  "extends_object (Leaf t op) = op"
  "extends_object (ArrayOf r U)"
  "extends_object (RecordOf fs)"
  by (simp_all add: extends_object_def)

subsection \<open>The examples in the comments of the source\<close>

text \<open>
  \<^verbatim>\<open>Paths<User>\<close>, at the default budget 5, is the union the comment lists.
  \<^verbatim>\<open>PathValue<User, "profile.address.city">\<close> is the declared type of \<^verbatim>\<open>city\<close>, which is
  \<^verbatim>\<open>string\<close>.
\<close>

lemma Paths_User:
  "Paths User (DNum 5) =
     Some {map Ch ''id'', map Ch ''profile'', map Ch ''profile.name'', map Ch ''profile.address'',
           map Ch ''profile.address.city'', map Ch ''profile.address.zip''}"
  by (simp add: User_def Paths_simps Join_def insert_commute)

lemma PathValue_User:
  "PathValue L User ''profile.address.city'' = Some (Leaf ''string'' False)"
  by (simp add: User_def PathValue.simps props_def before_dot_def after_dot_def)

subsection \<open>Enumeration within the table\<close>






subsection \<open>Finiteness and the length of paths\<close>


lemma nsegments_simps [simp]:
  "nsegments [] = 1"
  "nsegments [NumHole] = 1"
  "nsegments (Join K q) = nsegments K + nsegments q"
  by (simp_all add: nsegments_def Join_def)



subsection \<open>Resolving a path\<close>

lemma props_RecordOf [simp]: "props L (RecordOf fs) = fs"
  by (simp add: props_def)









subsection \<open>Trivial inputs\<close>

text \<open>
  \<^bold>\<open>C9\<close> (as amended).  On a primitive leaf the enumeration is the empty string alone.  On an
  object type without properties, and on a function leaf, it is the empty union: there is
  no path, not even the empty string.
\<close>

theorem Paths_trivial:
  "Paths (Leaf t False) (DNum n) = Some {[]} \<and>
   Paths (RecordOf []) (DNum n) = Some {} \<and>
   Paths (Leaf t True) (DNum n) = Some {}"
  by (simp add: Paths_simps)

theorem Paths_empty_record_counterexample:
  "Paths (RecordOf []) (DNum 5) \<noteq> Some {[]}"
  by (simp add: Paths_simps)

subsection \<open>Depth truncation\<close>








subsection \<open>Arrays in paths\<close>




subsection \<open>Resolving the enumerated paths\<close>


text \<open>
  Two more ways in which an enumerated path does not resolve: a property name that itself
  contains a dot is split at that dot, and an instance of the index segment of an array,
  such as \<^verbatim>\<open>items.0\<close>, is looked up among the members of the array interface, where no numeric
  string is a key.
\<close>

lemma Paths_Dotted_unresolved:
  "Paths Dotted (DNum 5) = Some {map Ch ''a.b''} \<and> PathValue L Dotted ''a.b'' = None"
  by (simp add: Dotted_def Paths_simps PathValue.simps before_dot_def)

lemma Paths_Items_unresolved:
  "Paths Items (DNum 5) =
     Some {map Ch ''items'', map Ch ''items.'' @ [NumHole],
           map Ch ''items.'' @ [NumHole] @ map Ch ''.x''} \<and>
   PathValue no_members Items ''items.0'' = None \<and>
   PathValue no_members Items ''items.0.x'' = None"
  by (simp add: Items_def Paths_simps Join_def insert_commute PathValue.simps
        before_dot_def after_dot_def props_def no_members_def)




section \<open>The transforms at every depth\<close>

subsection \<open>Positions of the result\<close>

text \<open>
  Walking into the result of a transform gives the transform of what the same walk finds in
  the input.
\<close>

lemma walk_DeepReadonly: "walk ks (DeepReadonly s) = map_option DeepReadonly (walk ks s)"
proof (induction ks s rule: walk.induct)
  case (1 T)
  show ?case by simp
next
  case (2 K ks T)
  then show ?case
    by (cases T) (auto simp: DeepReadonly_simps lookup_map split: option.splits)
next
  case (3 ks T)
  then show ?case
    by (cases T) (auto simp: DeepReadonly_simps)
qed

lemma walk_DeepMutable: "walk ks (DeepMutable s) = map_option DeepMutable (walk ks s)"
proof (induction ks s rule: walk.induct)
  case (1 T)
  show ?case by simp
next
  case (2 K ks T)
  then show ?case
    by (cases T) (auto simp: DeepMutable_simps lookup_map split: option.splits)
next
  case (3 ks T)
  then show ?case
    by (cases T) (auto simp: DeepMutable_simps)
qed

lemma walk_DeepPartial_at:
  "walk ks (DeepPartial_at p s) = map_option (DeepPartial_at q) (walk ks s)"
proof (induction ks s arbitrary: p rule: walk.induct)
  case (1 T)
  show ?case using DeepPartial_at_position[of p T q] by simp
next
  case (2 K ks T)
  then show ?case
    by (cases T) (auto simp: DeepPartial_at_simps lookup_map split: option.splits)
next
  case (3 ks T)
  then show ?case
    by (cases T) (auto simp: DeepPartial_at_simps)
qed

lemma DeepRequired_at_position: "DeepRequired_at p s = DeepRequired_at q s"
  using DeepRequired_at_idem[of p p s q] DeepRequired_at_idem[of p p s p] by simp

lemma walk_DeepRequired_at:
  "walk ks (DeepRequired_at p s) = map_option (DeepRequired_at q) (walk ks s)"
proof (induction ks s arbitrary: p rule: walk.induct)
  case (1 T)
  show ?case using DeepRequired_at_position[of p T q] by simp
next
  case (2 K ks T)
  then show ?case
    by (cases T) (auto simp: DeepRequired_at_simps lookup_map split: option.splits)
next
  case (3 ks T)
  then show ?case
    by (cases T) (auto simp: DeepRequired_at_simps)
qed

subsection \<open>Function leaves\<close>

text \<open>
  \<^bold>\<open>C3.\<close>  \<^verbatim>\<open>DeepReadonly\<close> and \<^verbatim>\<open>DeepMutable\<close> hand a function leaf back, by their first
  branch.  \<^verbatim>\<open>DeepPartial\<close> and \<^verbatim>\<open>DeepRequired\<close> have no such branch: the function type reaches
  the mapped type, which makes the empty object type of it.
\<close>

theorem DeepPartial_function_leaf:
  "DeepPartial Runner = RecordOf [Field ''run'' (RecordOf []) True False] \<and>
   DeepRequired Runner = RecordOf [Field ''run'' (RecordOf []) False False] \<and>
   DeepReadonly Runner = RecordOf [Field ''run'' (Leaf ''() => void'' True) False True] \<and>
   DeepMutable Runner = RecordOf [Field ''run'' (Leaf ''() => void'' True) False False]"
  by (simp add: Runner_def DeepPartial_def DeepRequired_def DeepPartial_at_simps
        DeepRequired_at_simps DeepReadonly_simps DeepMutable_simps)

text \<open>The same at any position of a type, however deep.\<close>

lemma function_leaf_kept:
  assumes "walk ks s = Some (Leaf t True)"
  shows "walk ks (DeepReadonly s) = Some (Leaf t True)"
    and "walk ks (DeepMutable s) = Some (Leaf t True)"
  using assms walk_DeepReadonly[of ks s] walk_DeepMutable[of ks s]
  by (simp_all add: DeepReadonly_simps DeepMutable_simps)

lemma function_leaf_decomposed:
  assumes "walk ks s = Some (Leaf t True)"
  shows "walk ks (DeepPartial s) = Some (RecordOf [])"
    and "walk ks (DeepRequired s) = Some (RecordOf [])"
  using assms walk_DeepPartial_at[of ks Subject s Subject]
    walk_DeepRequired_at[of ks Subject s Subject]
  by (simp_all add: DeepPartial_def DeepRequired_def DeepPartial_at_simps DeepRequired_at_simps)


section \<open>Properties of DeepIntersection\<close>

subsection \<open>Unfolding equations\<close>

lemma plain_simps:
  "plain (Leaf t op) = ILeaf t op"
  "plain (ArrayOf r U) = IArrayOf r (plain U)"
  "plain (RecordOf fs) =
     IRecordOf (map (\<lambda>f. Field (name f) (plain (shape f)) (optional f) (readonly f)) fs)"
  by (simp_all add: plain.code)

text \<open>\<^verbatim>\<open>DeepIntersection\<close>, its first mapped type and its template, in the form of the source.\<close>

lemma DeepIntersection_unfold:
  "DeepIntersection L T D =
     IInter (DeepIntersection_mapped L T D) (DeepIntersection_added L T D)"
  unfolding DeepIntersection_def DeepIntersection_mapped_def
  by (subst DeepIntersection_at.code) simp

lemma DeepIntersection_mapped_simps:
  "DeepIntersection_mapped L (Leaf t False) D = ILeaf t False"
  "DeepIntersection_mapped L (Leaf t True) D = IRecordOf []"
  "DeepIntersection_mapped L (ArrayOf r U) D = IArrayOf r (DeepIntersection_template L U D)"
  "DeepIntersection_mapped L (RecordOf fs) D =
     IRecordOf (map (\<lambda>f. Field (name f) (DeepIntersection_template L (shape f) D)
                            (optional f) (readonly f)) fs)"
  unfolding DeepIntersection_mapped_def DeepIntersection_template_def
  by (subst DeepIntersection_at.code, simp)+

lemma DeepIntersection_template_simps:
  "DeepIntersection_template L (ArrayOf False U) D = IArrayOf False (DeepIntersection L U D)"
  "DeepIntersection_template L (ArrayOf True U) D = IArrayOf True (DeepIntersection L U D)"
  "DeepIntersection_template L (RecordOf fs) D = DeepIntersection L (RecordOf fs) D"
  "DeepIntersection_template L (Leaf t True) D = DeepIntersection L (Leaf t True) D"
  "DeepIntersection_template L (Leaf t False) D = ILeaf t False"
  unfolding DeepIntersection_def DeepIntersection_template_def
  by (subst DeepIntersection_at.code, simp add: DeepIntersection_at.code[of _ Whole])+


lemma first_operand_simps [simp]:
  "first_operand (IInter A B) = A"
  "first_operand (IRecordOf fs) = IRecordOf fs"
  "first_operand (IArrayOf r U) = IArrayOf r U"
  "first_operand (ILeaf t op) = ILeaf t op"
  "first_operand INever = INever"
  by (simp_all add: first_operand_def)

subsection \<open>The conflict rule\<close>

text \<open>
  \<^bold>\<open>C1.\<close>  The example of the specification.  Both operands have a property \<open>a\<close>.  The second
  mapped type keeps \<open>a\<close> and gives it the type \<^verbatim>\<open>never\<close>, so the property \<open>a\<close> of the
  intersection has the type \<^verbatim>\<open>int & never\<close>, which is \<^verbatim>\<open>never\<close>: the property of the primary is
  not kept as it was.  The property \<open>b\<close>, which only the secondary has, is added unchanged.
\<close>

theorem DeepIntersection_conflict:
  "DeepIntersection L Primary Secondary =
     IInter (IRecordOf [Field ''a'' (ILeaf ''int'' False) False False])
            (IRecordOf [Field ''a'' INever False False,
                        Field ''b'' (ILeaf ''bool'' False) False False]) \<and>
   properties (DeepIntersection L Primary Secondary) =
     Some [Field ''a'' INever False False, Field ''b'' (ILeaf ''bool'' False) False False]"
  by (simp add: Primary_def Secondary_def DeepIntersection_unfold DeepIntersection_mapped_simps
        DeepIntersection_template_simps DeepIntersection_added_def keyof_def props_def
        plain_simps properties_def merge_def meet_def)

text \<open>The properties of the intersection of two object types, in general.\<close>

lemma properties_DeepIntersection:
  "properties (DeepIntersection L (RecordOf fs) (RecordOf gs)) =
     Some (merge
       (map (\<lambda>f. Field (name f) (DeepIntersection_template L (shape f) (RecordOf gs))
                    (optional f) (readonly f)) fs)
       (map (\<lambda>g. Field (name g)
                    (if name g \<in> set (map name fs) then INever else plain (shape g))
                    (optional g) (readonly g)) gs))"
  by (simp add: DeepIntersection_unfold DeepIntersection_mapped_simps
        DeepIntersection_added_def keyof_def props_def properties_def)

lemma lookup_None_iff: "lookup fs K = None \<longleftrightarrow> K \<notin> set (map name fs)"
  by (induction fs) auto

lemma lookup_append:
  "lookup (fs @ gs) K = (case lookup fs K of None \<Rightarrow> lookup gs K | Some f \<Rightarrow> Some f)"
  by (induction fs) auto

lemma lookup_merge_left:
  assumes "lookup fs K = Some f"
  shows "lookup (merge fs gs) K =
           Some (case lookup gs K of None \<Rightarrow> f | Some g \<Rightarrow> meet f g)"
proof -
  have "lookup (map (\<lambda>f. case lookup gs (name f) of None \<Rightarrow> f | Some g \<Rightarrow> meet f g) fs) K =
          map_option (\<lambda>f. case lookup gs (name f) of None \<Rightarrow> f | Some g \<Rightarrow> meet f g) (lookup fs K)"
    by (rule lookup_map) (simp add: meet_def split: option.splits)
  with assms show ?thesis
    using lookup_Some[OF assms] by (simp add: merge_def lookup_append)
qed

lemma lookup_merge_right:
  assumes "lookup fs K = None"
  shows "lookup (merge fs gs) K = lookup gs K"
proof -
  have "lookup (map (\<lambda>f. case lookup gs (name f) of None \<Rightarrow> f | Some g \<Rightarrow> meet f g) fs) K =
          map_option (\<lambda>f. case lookup gs (name f) of None \<Rightarrow> f | Some g \<Rightarrow> meet f g) (lookup fs K)"
    by (rule lookup_map) (simp add: meet_def split: option.splits)
  moreover have "lookup (filter (\<lambda>g. lookup fs (name g) = None) gs) K = lookup gs K"
    using assms by (induction gs) auto
  ultimately show ?thesis
    using assms by (simp add: merge_def lookup_append)
qed

text \<open>
  A property that both operands have is \<^verbatim>\<open>never\<close> in the result, whatever its types were; a
  property that only the secondary has is added as it is.
\<close>

lemma DeepIntersection_shared_property:
  assumes "lookup fs K = Some f" and "lookup gs K = Some g"
  shows "\<exists>ps. properties (DeepIntersection L (RecordOf fs) (RecordOf gs)) = Some ps \<and>
           lookup ps K = Some (Field K INever (optional f \<and> optional g) (readonly f \<and> readonly g))"
proof -
  let ?h = "\<lambda>f. Field (name f) (DeepIntersection_template L (shape f) (RecordOf gs))
                    (optional f) (readonly f)"
  let ?k = "\<lambda>g. Field (name g)
                    (if name g \<in> set (map name fs) then INever else plain (shape g))
                    (optional g) (readonly g)"
  have f: "lookup (map ?h fs) K = Some (?h f)"
    using assms(1) by (simp add: lookup_map)
  have g: "lookup (map ?k gs) K = Some (?k g)"
    using assms(2) by (simp add: lookup_map)
  have K: "name f = K" "name g = K" "K \<in> set (map name fs)"
    using lookup_Some[OF assms(1)] lookup_Some[OF assms(2)] by auto
  show ?thesis
    unfolding properties_DeepIntersection
    using lookup_merge_left[OF f, of "map ?k gs"] g K
    by (simp add: meet_def)
qed

lemma DeepIntersection_added_property:
  assumes "lookup fs K = None" and "lookup gs K = Some g"
  shows "\<exists>ps. properties (DeepIntersection L (RecordOf fs) (RecordOf gs)) = Some ps \<and>
           lookup ps K = Some (Field K (plain (shape g)) (optional g) (readonly g))"
proof -
  let ?h = "\<lambda>f. Field (name f) (DeepIntersection_template L (shape f) (RecordOf gs))
                    (optional f) (readonly f)"
  let ?k = "\<lambda>g. Field (name g)
                    (if name g \<in> set (map name fs) then INever else plain (shape g))
                    (optional g) (readonly g)"
  have f: "lookup (map ?h fs) K = None"
    using assms(1) by (simp add: lookup_map)
  have g: "lookup (map ?k gs) K = Some (?k g)"
    using assms(2) by (simp add: lookup_map)
  have K: "name g = K" "K \<notin> set (map name fs)"
    using lookup_Some[OF assms(2)] assms(1) by (auto simp: lookup_None_iff)
  show ?thesis
    unfolding properties_DeepIntersection
    using lookup_merge_right[OF f, of "map ?k gs"] g K
    by simp
qed

subsection \<open>Array properties\<close>





subsection \<open>No depth budget in the five transforms\<close>

lemma DeepIntersection_at_parts [simp]:
  "DeepIntersection_at L Whole T D = DeepIntersection L T D"
  "DeepIntersection_at L Mapped T D = DeepIntersection_mapped L T D"
  "DeepIntersection_at L Template T D = DeepIntersection_template L T D"
  by (simp_all add: DeepIntersection_def DeepIntersection_mapped_def
        DeepIntersection_template_def)







end
